theory Spec2Isabelle
  imports Complex_Main "HOL-Library.Word"
begin

section \<open>Protein Tracker API: the request handlers of main.py\<close>

text \<open>
  The development embeds the four request handlers of \<^verbatim>\<open>src/main.py\<close>
  (\<^verbatim>\<open>create_item\<close>, \<^verbatim>\<open>list_items\<close>, \<^verbatim>\<open>create_consumption\<close>,
  \<^verbatim>\<open>list_consumptions\<close>), the helper \<^verbatim>\<open>oid\<close> and \<^verbatim>\<open>serialize_item\<close>, and the
  field constraints of \<^verbatim>\<open>src/schemas.py\<close>.

  Python's \<^verbatim>\<open>float\<close> is kept abstract: it is a type variable \<open>'f\<close> of the purely
  syntactic classes \<open>zero\<close>, \<open>plus\<close>, \<open>times\<close> and \<open>ord\<close>, so \<open>0\<close>, \<open>+\<close>, \<open>*\<close> and
  \<open><\<close> are the float operations the handlers apply and no law of arithmetic is assumed
  of them. The builtin \<^verbatim>\<open>round(x, 2)\<close> is a parameter \<open>round2\<close> of the one handler that
  calls it.
\<close>

subsection \<open>Errors\<close>

text \<open>
  \<open>HTTPException status detail\<close> is FastAPI's exception as the handlers raise it.
  \<open>RequestValidationError\<close> is the rejection of a request body by its pydantic model,
  before the handler runs. \<open>InternalServerError\<close> stands for any other exception that
  escapes a handler (an \<^verbatim>\<open>AttributeError\<close> on \<^verbatim>\<open>None\<close>, a \<^verbatim>\<open>ValueError\<close> of
  \<^verbatim>\<open>date.fromisoformat\<close>).
\<close>

datatype error =
    HTTPException nat string
  | RequestValidationError
  | InternalServerError

subsection \<open>Calendar dates: \<^verbatim>\<open>datetime.date\<close>, \<^verbatim>\<open>isoformat\<close>, \<^verbatim>\<open>fromisoformat\<close>\<close>

record date =
  year :: nat
  month :: nat
  day :: nat

definition is_leap :: "nat \<Rightarrow> bool" where
  "is_leap y = (y mod 4 = 0 \<and> (y mod 100 \<noteq> 0 \<or> y mod 400 = 0))"

definition days_in_month :: "nat \<Rightarrow> nat \<Rightarrow> nat" where
  "days_in_month y m =
     (if m = 2 then (if is_leap y then 29 else 28)
      else if m = 4 \<or> m = 6 \<or> m = 9 \<or> m = 11 then 30
      else 31)"

text \<open>The range checks of the \<^verbatim>\<open>date\<close> constructor: every \<^verbatim>\<open>date\<close> object satisfies them.\<close>

definition valid_date :: "date \<Rightarrow> bool" where
  "valid_date d =
     (1 \<le> year d \<and> year d \<le> 9999 \<and> 1 \<le> month d \<and> month d \<le> 12 \<and>
      1 \<le> day d \<and> day d \<le> days_in_month (year d) (month d))"

definition digit_char :: "nat \<Rightarrow> char" where
  "digit_char n = char_of (48 + n)"

definition digit_val :: "char \<Rightarrow> nat option" where
  "digit_val c =
     (let n = (of_char c :: nat) in if 48 \<le> n \<and> n \<le> 57 then Some (n - 48) else None)"

text \<open>\<^verbatim>\<open>"%04d-%02d-%02d" % (year, month, day)\<close>, for the years a \<^verbatim>\<open>date\<close> can hold.\<close>

definition isoformat :: "date \<Rightarrow> string" where
  "isoformat d =
     [digit_char (year d div 1000 mod 10), digit_char (year d div 100 mod 10),
      digit_char (year d div 10 mod 10), digit_char (year d mod 10), CHR ''-'',
      digit_char (month d div 10 mod 10), digit_char (month d mod 10), CHR ''-'',
      digit_char (day d div 10 mod 10), digit_char (day d mod 10)]"

fun parse_digits :: "nat \<Rightarrow> string \<Rightarrow> nat option" where
  "parse_digits acc [] = Some acc"
| "parse_digits acc (c # cs) =
     (case digit_val c of None \<Rightarrow> None | Some v \<Rightarrow> parse_digits (10 * acc + v) cs)"

text \<open>
  The form \<^verbatim>\<open>YYYY-MM-DD\<close>, which \<^verbatim>\<open>date.fromisoformat\<close> parses in every Python
  version and which the handler's error message names: ten characters, ASCII digits around
  two hyphens, and then the range checks of the \<^verbatim>\<open>date\<close> constructor.
\<close>

definition fromisoformat_ymd :: "string \<Rightarrow> date option" where
  "fromisoformat_ymd s =
     (case s of
        [y1, y2, y3, y4, s1, m1, m2, s2, d1, d2] \<Rightarrow>
          (if s1 = CHR ''-'' \<and> s2 = CHR ''-'' then
             (case (parse_digits 0 [y1, y2, y3, y4], parse_digits 0 [m1, m2],
                    parse_digits 0 [d1, d2]) of
                (Some y, Some m, Some d) \<Rightarrow>
                  (let r = \<lparr>year = y, month = m, day = d\<rparr>
                   in if valid_date r then Some r else None)
              | _ \<Rightarrow> None)
           else None)
      | _ \<Rightarrow> None)"

text \<open>
  \<^verbatim>\<open>date.fromisoformat\<close>. What it makes of a string that is not a date in the form
  \<^verbatim>\<open>YYYY-MM-DD\<close> depends on the Python that runs the handlers, and the repository
  fixes none: before Python 3.11 every such string is a \<^verbatim>\<open>ValueError\<close>; from 3.11 on
  the basic form \<^verbatim>\<open>YYYYMMDD\<close> and the ISO week forms are dates too. That part of the
  library is the parameter \<open>other_forms\<close>, and the handlers that parse take it.
  \<open>None\<close> is the \<^verbatim>\<open>ValueError\<close>.
\<close>

definition fromisoformat :: "(string \<Rightarrow> date option) \<Rightarrow> string \<Rightarrow> date option" where
  "fromisoformat other_forms s =
     (case fromisoformat_ymd s of
        Some d \<Rightarrow> Some d
      | None \<Rightarrow> other_forms s)"

text \<open>
  The basic form \<^verbatim>\<open>YYYYMMDD\<close>, one of the forms that Python 3.11 added: eight ASCII
  digits and the range checks of the \<^verbatim>\<open>date\<close> constructor. It stands for
  \<open>other_forms\<close> in the concrete instances.
\<close>

definition basic_form :: "string \<Rightarrow> date option" where
  "basic_form s =
     (case s of
        [y1, y2, y3, y4, m1, m2, d1, d2] \<Rightarrow>
          (case (parse_digits 0 [y1, y2, y3, y4], parse_digits 0 [m1, m2],
                 parse_digits 0 [d1, d2]) of
             (Some y, Some m, Some d) \<Rightarrow>
               (let r = \<lparr>year = y, month = m, day = d\<rparr>
                in if valid_date r then Some r else None)
           | _ \<Rightarrow> None)
      | _ \<Rightarrow> None)"

subsection \<open>Identifiers: \<^verbatim>\<open>bson.ObjectId\<close> and \<^verbatim>\<open>oid\<close>\<close>

text \<open>
  An \<^verbatim>\<open>ObjectId\<close> is twelve bytes. Built from a string it takes 24 hexadecimal digits of
  either case and raises \<^verbatim>\<open>InvalidId\<close> otherwise (\<open>None\<close> here); \<^verbatim>\<open>str\<close> renders it as
  24 lower-case hexadecimal digits.
\<close>

type_synonym ObjectId = "96 word"

definition hex_char :: "nat \<Rightarrow> char" where
  "hex_char n = (if n < 10 then char_of (48 + n) else char_of (87 + n))"

definition hex_val :: "char \<Rightarrow> nat option" where
  "hex_val c =
     (let n = (of_char c :: nat) in
      if 48 \<le> n \<and> n \<le> 57 then Some (n - 48)
      else if 97 \<le> n \<and> n \<le> 102 then Some (n - 87)
      else if 65 \<le> n \<and> n \<le> 70 then Some (n - 55)
      else None)"

fun parse_hex :: "nat \<Rightarrow> string \<Rightarrow> nat option" where
  "parse_hex acc [] = Some acc"
| "parse_hex acc (c # cs) =
     (case hex_val c of None \<Rightarrow> None | Some v \<Rightarrow> parse_hex (16 * acc + v) cs)"

fun hex_digits :: "nat \<Rightarrow> nat \<Rightarrow> string" where
  "hex_digits 0 n = []"
| "hex_digits (Suc k) n = hex_digits k (n div 16) @ [hex_char (n mod 16)]"

definition ObjectId :: "string \<Rightarrow> ObjectId option" where
  "ObjectId s =
     (if length s = 24 then map_option word_of_nat (parse_hex 0 s) else None)"

definition str_ObjectId :: "ObjectId \<Rightarrow> string" where
  "str_ObjectId x = hex_digits 24 (unat x)"

text \<open>
  \<^verbatim>\<open>oid\<close>: the \<^verbatim>\<open>bson\<close> module is part of the storage driver and its import is taken to
  succeed; the second \<^verbatim>\<open>try\<close> turns \<^verbatim>\<open>InvalidId\<close> into a 400.
\<close>

definition oid :: "string \<Rightarrow> error + ObjectId" where
  "oid id_str =
     (case ObjectId id_str of
        None \<Rightarrow> Inl (HTTPException 400 ''Invalid ID format'')
      | Some x \<Rightarrow> Inr x)"

subsection \<open>Schemas (schemas.py)\<close>

text \<open>
  The request models \<^verbatim>\<open>Item\<close> and \<^verbatim>\<open>Consumption\<close> and the response models
  \<^verbatim>\<open>ItemOut\<close> and \<^verbatim>\<open>ConsumptionOut\<close>. The field types are the record's types; the
  only further constraints the models declare are \<^verbatim>\<open>gt=0\<close> on \<^verbatim>\<open>protein_per_unit\<close> and
  on \<^verbatim>\<open>quantity\<close>, checked when the request body is validated.
\<close>

record 'f Item =
  name :: string
  unit :: string
  protein_per_unit :: 'f

record 'f Consumption =
  date :: date
  item_id :: string
  quantity :: 'f

record 'f ItemOut =
  out_id :: string
  out_name :: string
  out_unit :: string
  out_protein_per_unit :: 'f

record 'f ConsumptionOut =
  co_id :: string
  co_date :: date
  co_item_id :: string
  co_item_name :: string
  co_unit :: string
  co_quantity :: 'f
  co_protein_per_unit :: 'f
  co_protein_total :: 'f

definition Item_validate :: "'f::{zero,ord} Item \<Rightarrow> error + 'f Item" where
  "Item_validate body =
     (if 0 < protein_per_unit body then Inr body else Inl RequestValidationError)"

definition Consumption_validate :: "'f::{zero,ord} Consumption \<Rightarrow> error + 'f Consumption" where
  "Consumption_validate body =
     (if 0 < quantity body then Inr body else Inl RequestValidationError)"

subsection \<open>Storage\<close>

text \<open>
  The documents of the two collections, \<^verbatim>\<open>db["item"]\<close> and \<^verbatim>\<open>db["consumption"]\<close>, in
  insertion order. \<open>i_oid\<close> and \<open>c_oid\<close> are the \<^verbatim>\<open>_id\<close> fields; a consumption document
  keeps its date as a string and the item's identifier as the request gave it.
\<close>

record 'f item_doc =
  i_oid :: ObjectId
  i_name :: string
  i_unit :: string
  i_protein_per_unit :: 'f

record 'f payload =
  p_date :: string
  p_item_id :: string
  p_item_name :: string
  p_unit :: string
  p_quantity :: 'f
  p_protein_per_unit :: 'f
  p_protein_total :: 'f

record 'f consumption_doc =
  c_oid :: ObjectId
  c_date :: string
  c_item_id :: string
  c_item_name :: string
  c_unit :: string
  c_quantity :: 'f
  c_protein_per_unit :: 'f
  c_protein_total :: 'f

record 'f database =
  item :: "'f item_doc list"
  consumption :: "'f consumption_doc list"

text \<open>
  Modelled from the spec: \<^verbatim>\<open>create_document\<close> of the storage gateway (database.py is
  not among the sources). The gateway exposes \<^verbatim>\<open>insert(collection, record) -> id\<close>; the
  record is stored under an identifier that the storage layer assigns, and the identifier
  comes back as a string. \<open>new_oid\<close> is the identifier the storage layer assigns to this
  insert; that it is unique is a hypothesis of the theorems that depend on it.
\<close>

definition create_document_item ::
  "ObjectId \<Rightarrow> 'f database \<Rightarrow> 'f Item \<Rightarrow> string \<times> 'f database" where
  "create_document_item new_oid db data =
     (str_ObjectId new_oid,
      db\<lparr>item := item db @
        [\<lparr>i_oid = new_oid, i_name = name data, i_unit = unit data,
          i_protein_per_unit = protein_per_unit data\<rparr>]\<rparr>)"

text \<open>
  Modelled from the spec: \<^verbatim>\<open>create_document\<close> of the storage gateway, on the
  \<^verbatim>\<open>consumption\<close> collection, where the handler passes a dictionary.
\<close>

definition create_document_consumption ::
  "ObjectId \<Rightarrow> 'f database \<Rightarrow> 'f payload \<Rightarrow> string \<times> 'f database" where
  "create_document_consumption new_oid db data =
     (str_ObjectId new_oid,
      db\<lparr>consumption := consumption db @
        [\<lparr>c_oid = new_oid, c_date = p_date data, c_item_id = p_item_id data,
          c_item_name = p_item_name data, c_unit = p_unit data,
          c_quantity = p_quantity data, c_protein_per_unit = p_protein_per_unit data,
          c_protein_total = p_protein_total data\<rparr>]\<rparr>)"

text \<open>
  Modelled from the spec: \<^verbatim>\<open>get_documents\<close> of the storage gateway,
  \<^verbatim>\<open>find(collection, filter) -> sequence of records\<close>, with the empty filter on the
  \<^verbatim>\<open>item\<close> collection.
\<close>

definition get_documents_item :: "'f database \<Rightarrow> 'f item_doc list" where
  "get_documents_item db = item db"

text \<open>
  Modelled from the spec: \<^verbatim>\<open>get_documents\<close> of the storage gateway with the filter
  \<^verbatim>\<open>{"date": date_str}\<close> on the \<^verbatim>\<open>consumption\<close> collection: the documents whose
  \<^verbatim>\<open>date\<close> field equals the string.
\<close>

definition get_documents_consumption :: "'f database \<Rightarrow> string \<Rightarrow> 'f consumption_doc list" where
  "get_documents_consumption db date_str = filter (\<lambda>d. c_date d = date_str) (consumption db)"

subsection \<open>Request handlers (main.py)\<close>

definition serialize_item :: "'f item_doc \<Rightarrow> 'f ItemOut" where
  "serialize_item doc =
     \<lparr>out_id = str_ObjectId (i_oid doc), out_name = i_name doc, out_unit = i_unit doc,
      out_protein_per_unit = i_protein_per_unit doc\<rparr>"

text \<open>
  \<^verbatim>\<open>find_one(filter)\<close> is \<open>find\<close>: the first matching document of the collection, or
  \<open>None\<close>. A handler returns its response or its error, and the storage it leaves.
\<close>

definition create_item ::
  "ObjectId \<Rightarrow> 'f database \<Rightarrow> 'f Item \<Rightarrow> (error + 'f ItemOut) \<times> 'f database" where
  "create_item new_oid db it =
     (case find (\<lambda>d. i_name d = name it) (item db) of
        Some existing \<Rightarrow>
          (Inl (HTTPException 400 ''Item with this name already exists''), db)
      | None \<Rightarrow>
          (case create_document_item new_oid db it of
             (new_id, db') \<Rightarrow>
               (case oid new_id of
                  Inl e \<Rightarrow> (Inl e, db')
                | Inr x \<Rightarrow>
                    (case find (\<lambda>d. i_oid d = x) (item db') of
                       None \<Rightarrow> (Inl InternalServerError, db')
                     | Some doc \<Rightarrow> (Inr (serialize_item doc), db')))))"

definition list_items :: "'f database \<Rightarrow> 'f ItemOut list" where
  "list_items db = map serialize_item (get_documents_item db)"

text \<open>
  \<^verbatim>\<open>create_consumption\<close>: the local \<^verbatim>\<open>protein_per_unit\<close> is \<open>ppu\<close> here, since the
  name is the field of \<^verbatim>\<open>Item\<close>. The response is built from \<open>saved\<close>, the document
  read back by its new identifier, and its date is parsed back from the stored string.
\<close>

definition create_consumption ::
  "(string \<Rightarrow> date option) \<Rightarrow> ObjectId \<Rightarrow> 'f::times database \<Rightarrow> 'f Consumption \<Rightarrow>
     (error + 'f ConsumptionOut) \<times> 'f database" where
  "create_consumption other_forms new_oid db entry =
     (case oid (item_id entry) of
        Inl e \<Rightarrow> (Inl e, db)
      | Inr x \<Rightarrow>
          (case find (\<lambda>d. i_oid d = x) (item db) of
             None \<Rightarrow> (Inl (HTTPException 404 ''Item not found''), db)
           | Some item_doc \<Rightarrow>
               (let ppu = i_protein_per_unit item_doc;
                    protein_total = ppu * quantity entry;
                    payload =
                      \<lparr>p_date = isoformat (date entry), p_item_id = item_id entry,
                       p_item_name = i_name item_doc, p_unit = i_unit item_doc,
                       p_quantity = quantity entry, p_protein_per_unit = ppu,
                       p_protein_total = protein_total\<rparr>
                in case create_document_consumption new_oid db payload of
                     (new_id, db') \<Rightarrow>
                       (case oid new_id of
                          Inl e \<Rightarrow> (Inl e, db')
                        | Inr y \<Rightarrow>
                            (case find (\<lambda>d. c_oid d = y) (consumption db') of
                               None \<Rightarrow> (Inl InternalServerError, db')
                             | Some saved \<Rightarrow>
                                 (case fromisoformat other_forms (c_date saved) of
                                    None \<Rightarrow> (Inl InternalServerError, db')
                                  | Some dt \<Rightarrow>
                                      (Inr \<lparr>co_id = str_ObjectId (c_oid saved), co_date = dt,
                                            co_item_id = c_item_id saved,
                                            co_item_name = c_item_name saved,
                                            co_unit = c_unit saved,
                                            co_quantity = c_quantity saved,
                                            co_protein_per_unit = c_protein_per_unit saved,
                                            co_protein_total = c_protein_total saved\<rparr>,
                                       db')))))))"

text \<open>
  The response of \<^verbatim>\<open>list_consumptions\<close>, and its loop over the documents found: each
  document becomes a \<^verbatim>\<open>ConsumptionOut\<close>, appended to \<open>entries\<close>, and its
  \<^verbatim>\<open>protein_total\<close> is added to \<open>total_protein\<close>.
\<close>

record 'f consumption_list =
  r_date :: string
  r_entries :: "'f ConsumptionOut list"
  r_total_protein :: 'f

fun list_consumptions_loop ::
  "(string \<Rightarrow> date option) \<Rightarrow> 'f::plus consumption_doc list \<Rightarrow> 'f ConsumptionOut list \<Rightarrow> 'f \<Rightarrow>
     error + ('f ConsumptionOut list \<times> 'f)" where
  "list_consumptions_loop other_forms [] entries total_protein = Inr (entries, total_protein)"
| "list_consumptions_loop other_forms (d # docs) entries total_protein =
     (case fromisoformat other_forms (c_date d) of
        None \<Rightarrow> Inl InternalServerError
      | Some dt \<Rightarrow>
          (let co = \<lparr>co_id = str_ObjectId (c_oid d), co_date = dt,
                     co_item_id = c_item_id d, co_item_name = c_item_name d,
                     co_unit = c_unit d, co_quantity = c_quantity d,
                     co_protein_per_unit = c_protein_per_unit d,
                     co_protein_total = c_protein_total d\<rparr>
           in list_consumptions_loop other_forms docs (entries @ [co])
                (total_protein + co_protein_total co)))"

definition list_consumptions ::
  "(string \<Rightarrow> date option) \<Rightarrow> ('f \<Rightarrow> 'f) \<Rightarrow> 'f::{zero,plus} database \<Rightarrow> string \<Rightarrow>
     error + 'f consumption_list" where
  "list_consumptions other_forms round2 db date_str =
     (case fromisoformat other_forms date_str of
        None \<Rightarrow> Inl (HTTPException 400 ''Invalid date format. Use YYYY-MM-DD'')
      | Some _ \<Rightarrow>
          (case list_consumptions_loop other_forms (get_documents_consumption db date_str) [] 0 of
             Inl e \<Rightarrow> Inl e
           | Inr (entries, total_protein) \<Rightarrow>
               Inr \<lparr>r_date = date_str, r_entries = entries,
                    r_total_protein = round2 total_protein\<rparr>))"

text \<open>
  \<^verbatim>\<open>POST /api/items\<close> as FastAPI serves it: the body is validated against \<^verbatim>\<open>Item\<close>
  first, and only a valid body reaches the handler.
\<close>

definition post_api_items ::
  "ObjectId \<Rightarrow> 'f::{zero,ord} database \<Rightarrow> 'f Item \<Rightarrow> (error + 'f ItemOut) \<times> 'f database" where
  "post_api_items new_oid db body =
     (case Item_validate body of
        Inl e \<Rightarrow> (Inl e, db)
      | Inr it \<Rightarrow> create_item new_oid db it)"

text \<open>
  The storage states that the operations produce from the empty storage. The two listing
  operations only read, so the steps are the two creating operations, with any request,
  any assigned identifier and any library parser.
\<close>

inductive reachable :: "'f::times database \<Rightarrow> bool" where
  reachable_empty: "reachable \<lparr>item = [], consumption = []\<rparr>"
| reachable_create_item:
    "reachable db \<Longrightarrow> reachable (snd (create_item new_oid db it))"
| reachable_create_consumption:
    "reachable db \<Longrightarrow> reachable (snd (create_consumption other_forms new_oid db entry))"

text \<open>
  The \<^verbatim>\<open>ConsumptionOut\<close> that both consumption handlers build from a stored document
  \<open>d\<close> whose date string parses to \<open>dt\<close>; the theorems below state the handlers'
  responses with it.
\<close>

definition consumption_out :: "date \<Rightarrow> 'f consumption_doc \<Rightarrow> 'f ConsumptionOut" where
  "consumption_out dt d =
     \<lparr>co_id = str_ObjectId (c_oid d), co_date = dt, co_item_id = c_item_id d,
      co_item_name = c_item_name d, co_unit = c_unit d, co_quantity = c_quantity d,
      co_protein_per_unit = c_protein_per_unit d, co_protein_total = c_protein_total d\<rparr>"

subsection \<open>Example data\<close>

text \<open>
  The item of the specification's example and a storage that holds it, with \<open>real\<close> in
  the place of \<^verbatim>\<open>float\<close>; the concrete instances of the theorems below run on them.
\<close>

abbreviation chicken_breast :: "real item_doc" where
  "chicken_breast \<equiv>
     \<lparr>i_oid = 1, i_name = ''Chicken Breast'', i_unit = ''gm'', i_protein_per_unit = 0.31\<rparr>"

abbreviation chicken_db :: "real database" where
  "chicken_db \<equiv> \<lparr>item = [chicken_breast], consumption = []\<rparr>"

text \<open>
  Two consumption documents of one day, the request that creates the first of them, a
  storage that holds both, and a rounding to hundredths to stand for \<^verbatim>\<open>round(x, 2)\<close>
  in the instances.
\<close>

abbreviation lunch :: "real consumption_doc" where
  "lunch \<equiv>
     \<lparr>c_oid = 7, c_date = ''2024-01-15'', c_item_id = ''000000000000000000000001'',
      c_item_name = ''Chicken Breast'', c_unit = ''gm'', c_quantity = 200,
      c_protein_per_unit = 0.31, c_protein_total = 62\<rparr>"

abbreviation dinner :: "real consumption_doc" where
  "dinner \<equiv>
     \<lparr>c_oid = 8, c_date = ''2024-01-15'', c_item_id = ''000000000000000000000001'',
      c_item_name = ''Chicken Breast'', c_unit = ''gm'', c_quantity = 150,
      c_protein_per_unit = 0.31, c_protein_total = 46.5\<rparr>"

abbreviation lunch_request :: "real Consumption" where
  "lunch_request \<equiv>
     \<lparr>date = \<lparr>year = 2024, month = 1, day = 15\<rparr>,
      item_id = ''000000000000000000000001'', quantity = 200\<rparr>"

abbreviation two_meals_db :: "real database" where
  "two_meals_db \<equiv> \<lparr>item = [chicken_breast], consumption = [lunch, dinner]\<rparr>"

abbreviation round_hundredths :: "real \<Rightarrow> real" where
  "round_hundredths \<equiv> \<lambda>x. real_of_int (round (x * 100)) / 100"

section \<open>Identifiers and dates survive their string form\<close>

lemma digit_val_digit_char: "n < 10 \<Longrightarrow> digit_val (digit_char n) = Some n"
  by (simp add: digit_val_def digit_char_def)

lemma digit_val_mod10: "digit_val (digit_char (k mod 10)) = Some (k mod 10)"
  by (rule digit_val_digit_char) simp

lemma hex_val_hex_char: "n < 16 \<Longrightarrow> hex_val (hex_char n) = Some n"
  by (auto simp add: hex_val_def hex_char_def Let_def)

lemma parse_hex_append:
  "parse_hex acc (xs @ ys) =
     (case parse_hex acc xs of None \<Rightarrow> None | Some a \<Rightarrow> parse_hex a ys)"
  by (induction xs arbitrary: acc) (auto split: option.splits)

lemma length_hex_digits: "length (hex_digits k n) = k"
  by (induction k arbitrary: n) auto

lemma parse_hex_hex_digits: "parse_hex 0 (hex_digits k n) = Some (n mod 16 ^ k)"
proof (induction k arbitrary: n)
  case 0
  then show ?case by simp
next
  case (Suc k)
  have "16 * (n div 16 mod 16 ^ k) + n mod 16 = n mod (16 * 16 ^ k)"
    by (simp add: mod_mult2_eq)
  then show ?case
    by (simp add: parse_hex_append Suc hex_val_hex_char)
qed

lemma ObjectId_str: "ObjectId (str_ObjectId x) = Some x"
proof -
  have "unat x < 2 ^ 96" using unsigned_less [of x] by simp
  then have "unat x mod 16 ^ 24 = unat x" by simp
  then show ?thesis
    by (simp add: ObjectId_def str_ObjectId_def length_hex_digits parse_hex_hex_digits)
qed

lemma oid_str: "oid (str_ObjectId x) = Inr x"
  by (simp add: oid_def ObjectId_str)

lemma digits_step: "10 * (n div (10 * k)) + n div k mod 10 = n div (k::nat)"
proof -
  have "n div (10 * k) = n div k div 10"
    by (simp add: div_mult2_eq mult.commute)
  then show ?thesis by simp
qed

lemma digits4:
  assumes "n < 10000"
  shows "10 * (10 * (10 * (n div 1000 mod 10) + n div 100 mod 10) + n div 10 mod 10)
           + n mod 10 = (n::nat)"
proof -
  have a: "n div 1000 mod 10 = n div 1000" using assms by simp
  have b: "10 * (n div 1000) + n div 100 mod 10 = n div 100"
    using digits_step [of n 100] by simp
  have c: "10 * (n div 100) + n div 10 mod 10 = n div 10"
    using digits_step [of n 10] by simp
  show ?thesis by (simp only: a b c) simp
qed

lemma digits2:
  assumes "n < 100"
  shows "10 * (n div 10 mod 10) + n mod 10 = (n::nat)"
proof -
  have a: "n div 10 mod 10 = n div 10" using assms by simp
  show ?thesis by (simp only: a) simp
qed

lemma parse_digits4:
  assumes "n < 10000"
  shows "parse_digits 0 [digit_char (n div 1000 mod 10), digit_char (n div 100 mod 10),
     digit_char (n div 10 mod 10), digit_char (n mod 10)] = Some n"
proof -
  have "parse_digits 0 [digit_char (n div 1000 mod 10), digit_char (n div 100 mod 10),
     digit_char (n div 10 mod 10), digit_char (n mod 10)] =
     Some (10 * (10 * (10 * (10 * 0 + n div 1000 mod 10) + n div 100 mod 10)
             + n div 10 mod 10) + n mod 10)"
    by (simp only: parse_digits.simps digit_val_mod10 option.case)
  also have "10 * 0 + n div 1000 mod 10 = n div 1000 mod 10" by simp
  finally show ?thesis by (simp only: digits4 [OF assms])
qed

lemma parse_digits2:
  assumes "n < 100"
  shows "parse_digits 0 [digit_char (n div 10 mod 10), digit_char (n mod 10)] = Some n"
proof -
  have "parse_digits 0 [digit_char (n div 10 mod 10), digit_char (n mod 10)] =
     Some (10 * (10 * 0 + n div 10 mod 10) + n mod 10)"
    by (simp only: parse_digits.simps digit_val_mod10 option.case)
  also have "10 * 0 + n div 10 mod 10 = n div 10 mod 10" by simp
  finally show ?thesis by (simp only: digits2 [OF assms])
qed

lemma valid_date_bounds:
  "valid_date d \<Longrightarrow> year d < 10000 \<and> month d < 100 \<and> day d < 100"
  by (auto simp: valid_date_def days_in_month_def split: if_splits)

lemma fromisoformat_isoformat:
  assumes "valid_date d"
  shows "fromisoformat other_forms (isoformat d) = Some d"
proof -
  from valid_date_bounds [OF assms]
  have y: "year d < 10000" and m: "month d < 100" and dd: "day d < 100" by simp_all
  have r: "\<lparr>year = year d, month = month d, day = day d\<rparr> = d" by simp
  show ?thesis
    unfolding fromisoformat_def fromisoformat_ymd_def isoformat_def
    by (simp add: parse_digits4 [OF y] parse_digits2 [OF m] parse_digits2 [OF dd] assms r
          Let_def del: parse_digits.simps)
qed

section \<open>The handlers on the storage\<close>

lemma find_snoc_new:
  "\<forall>d\<in>set xs. \<not> P d \<Longrightarrow> P y \<Longrightarrow> find P (xs @ [y]) = Some y"
  by (induction xs) auto

lemma find_snoc_some: "P y \<Longrightarrow> \<exists>z. find P (xs @ [y]) = Some z"
  by (induction xs) auto

lemma find_None_set: "(find P xs = None) = (\<forall>d\<in>set xs. \<not> P d)"
  by (induction xs) auto

lemma create_item_conflict:
  assumes "\<exists>d\<in>set (item db). i_name d = name it"
  shows "create_item new_oid db it =
     (Inl (HTTPException 400 ''Item with this name already exists''), db)"
proof -
  from assms have "find (\<lambda>d. i_name d = name it) (item db) \<noteq> None"
    by (simp add: find_None_set)
  then obtain e where "find (\<lambda>d. i_name d = name it) (item db) = Some e" by auto
  then show ?thesis by (simp add: create_item_def)
qed

lemma create_item_fresh_name:
  assumes "\<forall>d\<in>set (item db). i_name d \<noteq> name it"
  shows "\<exists>doc. create_item new_oid db it =
     (Inr (serialize_item doc),
      db\<lparr>item := item db @
        [\<lparr>i_oid = new_oid, i_name = name it, i_unit = unit it,
          i_protein_per_unit = protein_per_unit it\<rparr>]\<rparr>)"
proof -
  from assms have n: "find (\<lambda>d. i_name d = name it) (item db) = None"
    by (simp add: find_None_set)
  have "\<exists>z. find (\<lambda>d. i_oid d = new_oid) (item db @
        [\<lparr>i_oid = new_oid, i_name = name it, i_unit = unit it,
          i_protein_per_unit = protein_per_unit it\<rparr>]) = Some z"
    by (rule find_snoc_some) simp
  then obtain z where z: "find (\<lambda>d. i_oid d = new_oid) (item db @
        [\<lparr>i_oid = new_oid, i_name = name it, i_unit = unit it,
          i_protein_per_unit = protein_per_unit it\<rparr>]) = Some z" ..
  have "create_item new_oid db it =
     (Inr (serialize_item z),
      db\<lparr>item := item db @
        [\<lparr>i_oid = new_oid, i_name = name it, i_unit = unit it,
          i_protein_per_unit = protein_per_unit it\<rparr>]\<rparr>)"
    by (simp add: create_item_def n create_document_item_def oid_str z)
  then show ?thesis by blast
qed

lemma create_item_fresh:
  assumes "\<forall>d\<in>set (item db). i_name d \<noteq> name it"
    and "\<forall>d\<in>set (item db). i_oid d \<noteq> new_oid"
  shows "create_item new_oid db it =
     (Inr \<lparr>out_id = str_ObjectId new_oid, out_name = name it, out_unit = unit it,
           out_protein_per_unit = protein_per_unit it\<rparr>,
      db\<lparr>item := item db @
        [\<lparr>i_oid = new_oid, i_name = name it, i_unit = unit it,
          i_protein_per_unit = protein_per_unit it\<rparr>]\<rparr>)"
proof -
  from assms(1) have n: "find (\<lambda>d. i_name d = name it) (item db) = None"
    by (simp add: find_None_set)
  have z: "find (\<lambda>d. i_oid d = new_oid) (item db @
        [\<lparr>i_oid = new_oid, i_name = name it, i_unit = unit it,
          i_protein_per_unit = protein_per_unit it\<rparr>]) =
        Some \<lparr>i_oid = new_oid, i_name = name it, i_unit = unit it,
          i_protein_per_unit = protein_per_unit it\<rparr>"
    by (rule find_snoc_new) (use assms(2) in simp_all)
  show ?thesis
    by (simp add: create_item_def n create_document_item_def oid_str z serialize_item_def)
qed

lemma create_item_snd:
  "snd (create_item new_oid db it) =
     (if \<exists>d\<in>set (item db). i_name d = name it then db
      else db\<lparr>item := item db @
        [\<lparr>i_oid = new_oid, i_name = name it, i_unit = unit it,
          i_protein_per_unit = protein_per_unit it\<rparr>]\<rparr>)"
  using create_item_conflict [of db it new_oid] create_item_fresh_name [of db it new_oid]
  by (cases "\<exists>d\<in>set (item db). i_name d = name it") auto

lemma create_consumption_item:
  "item (snd (create_consumption other_forms new_oid db entry)) = item db"
  by (simp add: create_consumption_def create_document_consumption_def Let_def
        split: sum.splits option.splits)

lemma reachable_distinct_names:
  "reachable db \<Longrightarrow> distinct (map i_name (item db))"
proof (induction rule: reachable.induct)
  case reachable_empty
  then show ?case by simp
next
  case (reachable_create_item db new_oid it)
  then show ?case by (auto simp: create_item_snd)
next
  case (reachable_create_consumption db new_oid entry)
  then show ?case by (simp add: create_consumption_item)
qed

lemma list_items_names: "map out_name (list_items db) = map i_name (item db)"
  by (simp add: list_items_def get_documents_item_def serialize_item_def comp_def)

lemma filter_name_length:
  "length (filter (\<lambda>i. out_name i = n) xs) = length (filter (\<lambda>m. m = n) (map out_name xs))"
  by (induction xs) auto

lemma distinct_count_one:
  "distinct xs \<Longrightarrow> n \<in> set xs \<Longrightarrow> length (filter (\<lambda>m. m = n) xs) = 1"
  by (induction xs) (auto simp: filter_empty_conv)

lemma list_consumptions_loop_eq:
  assumes "\<forall>c\<in>set docs. fromisoformat other_forms (c_date c) = Some d"
  shows "list_consumptions_loop other_forms docs entries tp =
           Inr (entries @ map (consumption_out d) docs,
                foldl (+) tp (map c_protein_total docs))"
  using assms
proof (induction docs arbitrary: entries tp)
  case Nil
  then show ?case by simp
next
  case (Cons c docs)
  then show ?case by (simp add: consumption_out_def)
qed

lemma protein_total_consumption_out:
  "co_protein_total \<circ> consumption_out d = c_protein_total"
  by (simp add: consumption_out_def fun_eq_iff)

lemma list_consumptions_eq:
  assumes "fromisoformat other_forms D = Some d"
  shows "list_consumptions other_forms round2 db D =
     Inr \<lparr>r_date = D,
          r_entries = map (consumption_out d) (filter (\<lambda>c. c_date c = D) (consumption db)),
          r_total_protein = round2 (foldl (+) 0
            (map c_protein_total (filter (\<lambda>c. c_date c = D) (consumption db))))\<rparr>"
proof -
  have "\<forall>c\<in>set (filter (\<lambda>c. c_date c = D) (consumption db)).
          fromisoformat other_forms (c_date c) = Some d"
    using assms by simp
  from list_consumptions_loop_eq [OF this, of "[]" 0] assms show ?thesis
    by (simp add: list_consumptions_def get_documents_consumption_def)
qed

lemma create_consumption_ok:
  assumes "ObjectId (item_id entry) = Some x"
    and "find (\<lambda>d. i_oid d = x) (item db) = Some item_doc"
    and "new_oid \<notin> set (map c_oid (consumption db))"
    and "valid_date (date entry)"
  shows "create_consumption other_forms new_oid db entry =
     (Inr (consumption_out (date entry)
        \<lparr>c_oid = new_oid, c_date = isoformat (date entry), c_item_id = item_id entry,
         c_item_name = i_name item_doc, c_unit = i_unit item_doc,
         c_quantity = quantity entry,
         c_protein_per_unit = i_protein_per_unit item_doc,
         c_protein_total = i_protein_per_unit item_doc * quantity entry\<rparr>),
      db\<lparr>consumption := consumption db @
        [\<lparr>c_oid = new_oid, c_date = isoformat (date entry), c_item_id = item_id entry,
          c_item_name = i_name item_doc, c_unit = i_unit item_doc,
          c_quantity = quantity entry,
          c_protein_per_unit = i_protein_per_unit item_doc,
          c_protein_total = i_protein_per_unit item_doc * quantity entry\<rparr>]\<rparr>)"
proof -
  let ?doc = "\<lparr>c_oid = new_oid, c_date = isoformat (date entry), c_item_id = item_id entry,
         c_item_name = i_name item_doc, c_unit = i_unit item_doc,
         c_quantity = quantity entry,
         c_protein_per_unit = i_protein_per_unit item_doc,
         c_protein_total = i_protein_per_unit item_doc * quantity entry\<rparr>"
  have "\<forall>c\<in>set (consumption db). c_oid c \<noteq> new_oid"
    using assms(3) by (metis imageI set_map)
  then have z: "find (\<lambda>d. c_oid d = new_oid) (consumption db @ [?doc]) = Some ?doc"
    by (intro find_snoc_new) simp_all
  show ?thesis
    by (simp add: create_consumption_def oid_def assms(1,2) Let_def
          create_document_consumption_def ObjectId_str z
          fromisoformat_isoformat [OF assms(4)] consumption_out_def)
qed

section \<open>Item creation\<close>

text \<open>
  C5. A request to create an item whose name is the name of a stored item fails with the
  400 of the duplicate check, whatever unit \<open>u\<close> and protein content \<open>p\<close> it carries:
  the handler does so on every such \<^verbatim>\<open>Item\<close>, and the route does so on every such body
  that passes validation.
\<close>

theorem create_item_duplicate_name:
  assumes "d \<in> set (item db)"
  shows "fst (create_item new_oid db \<lparr>name = i_name d, unit = u, protein_per_unit = p\<rparr>) =
           Inl (HTTPException 400 ''Item with this name already exists'') \<and>
         (0 < p \<longrightarrow>
          fst (post_api_items new_oid db
                 \<lparr>name = i_name d, unit = u, protein_per_unit = p\<rparr>) =
            Inl (HTTPException 400 ''Item with this name already exists''))"
proof -
  have "create_item new_oid db \<lparr>name = i_name d, unit = u, protein_per_unit = p\<rparr> =
     (Inl (HTTPException 400 ''Item with this name already exists''), db)"
    by (rule create_item_conflict) (use assms in auto)
  then show ?thesis by (simp add: post_api_items_def Item_validate_def)
qed

theorem create_item_duplicate_name_witness:
  "chicken_breast \<in> set (item chicken_db) \<and>
   fst (post_api_items 2 chicken_db
          \<lparr>name = ''Chicken Breast'', unit = ''cup'', protein_per_unit = 43\<rparr>) =
     Inl (HTTPException 400 ''Item with this name already exists'')"
  using create_item_duplicate_name [of chicken_breast chicken_db 2 "''cup''" 43]
  by simp

text \<open>
  C9. When item creation fails with the duplicate-name error, the storage it leaves is
  the storage it was given: the check comes before the insert.
\<close>

theorem create_item_conflict_unchanged:
  assumes "fst (create_item new_oid db it) =
             Inl (HTTPException 400 ''Item with this name already exists'')"
  shows "snd (create_item new_oid db it) = db"
proof (cases "\<exists>d\<in>set (item db). i_name d = name it")
  case True
  then show ?thesis by (simp add: create_item_conflict)
next
  case False
  then have "\<forall>d\<in>set (item db). i_name d \<noteq> name it" by simp
  from create_item_fresh_name [OF this, of new_oid] assms show ?thesis by auto
qed

theorem create_item_conflict_unchanged_witness:
  "fst (create_item 2 chicken_db
          \<lparr>name = ''Chicken Breast'', unit = ''cup'', protein_per_unit = 43\<rparr>) =
     Inl (HTTPException 400 ''Item with this name already exists'') \<and>
   snd (create_item 2 chicken_db
          \<lparr>name = ''Chicken Breast'', unit = ''cup'', protein_per_unit = 43\<rparr>) =
     chicken_db"
proof -
  have h: "fst (create_item 2 chicken_db
                  \<lparr>name = ''Chicken Breast'', unit = ''cup'', protein_per_unit = 43\<rparr>) =
     Inl (HTTPException 400 ''Item with this name already exists'')"
    by (simp add: create_item_def)
  from h create_item_conflict_unchanged [OF h] show ?thesis by simp
qed

text \<open>
  C10. The duplicate check compares names as strings, character by character: creation
  fails with the duplicate-name error exactly when the request's name is among the stored
  names, and otherwise it succeeds and appends an item of that name. So a name that
  differs from a stored one only in case or in white space is accepted (the instance below
  creates \<open>''chicken''\<close> beside \<open>''Chicken''\<close>).
\<close>

theorem create_item_name_check_exact:
  "(fst (create_item new_oid db it) =
      Inl (HTTPException 400 ''Item with this name already exists'')) =
     (name it \<in> set (map i_name (item db))) \<and>
   (name it \<notin> set (map i_name (item db)) \<longrightarrow>
      (\<exists>doc. fst (create_item new_oid db it) = Inr (serialize_item doc)) \<and>
      map i_name (item (snd (create_item new_oid db it))) = map i_name (item db) @ [name it])"
proof (cases "name it \<in> set (map i_name (item db))")
  case True
  then have "\<exists>d\<in>set (item db). i_name d = name it" by (metis imageE set_map)
  from create_item_conflict [OF this, of new_oid] True show ?thesis by simp
next
  case False
  then have "\<forall>d\<in>set (item db). i_name d \<noteq> name it" by (metis imageI set_map)
  from create_item_fresh_name [OF this, of new_oid] False show ?thesis by auto
qed

theorem create_item_name_check_exact_witness:
  "''chicken'' \<notin> set (map i_name (item
      \<lparr>item = [\<lparr>i_oid = 1, i_name = ''Chicken'', i_unit = ''gm'',
                i_protein_per_unit = 0.31::real\<rparr>], consumption = []\<rparr>)) \<and>
   fst (create_item 2
      \<lparr>item = [\<lparr>i_oid = 1, i_name = ''Chicken'', i_unit = ''gm'',
                i_protein_per_unit = 0.31::real\<rparr>], consumption = []\<rparr>
      \<lparr>name = ''chicken'', unit = ''gm'', protein_per_unit = 0.31\<rparr>) \<noteq>
     Inl (HTTPException 400 ''Item with this name already exists'') \<and>
   map i_name (item (snd (create_item 2
      \<lparr>item = [\<lparr>i_oid = 1, i_name = ''Chicken'', i_unit = ''gm'',
                i_protein_per_unit = 0.31::real\<rparr>], consumption = []\<rparr>
      \<lparr>name = ''chicken'', unit = ''gm'', protein_per_unit = 0.31\<rparr>))) =
     [''Chicken'', ''chicken'']"
  using create_item_name_check_exact [of 2
      "\<lparr>item = [\<lparr>i_oid = 1, i_name = ''Chicken'', i_unit = ''gm'',
                i_protein_per_unit = 0.31::real\<rparr>], consumption = []\<rparr>"
      "\<lparr>name = ''chicken'', unit = ''gm'', protein_per_unit = 0.31\<rparr>"]
  by simp

text \<open>
  C4. In every storage state that the operations reach from the empty storage no two
  items share a name; and after a valid creation request (\<open>protein_per_unit > 0\<close>) the
  names are still distinct and the item listing holds exactly one item of the request's
  name.
\<close>

theorem item_names_unique:
  assumes "reachable db" and "0 < protein_per_unit it"
  shows "distinct (map i_name (item db)) \<and>
         distinct (map i_name (item (snd (post_api_items new_oid db it)))) \<and>
         length (filter (\<lambda>i. out_name i = name it)
                   (list_items (snd (post_api_items new_oid db it)))) = 1"
proof -
  have p: "post_api_items new_oid db it = create_item new_oid db it"
    using assms(2) by (simp add: post_api_items_def Item_validate_def)
  have r: "reachable (snd (create_item new_oid db it))"
    using assms(1) by (rule reachable_create_item)
  have d: "distinct (map i_name (item (snd (create_item new_oid db it))))"
    using r by (rule reachable_distinct_names)
  have m: "name it \<in> set (map i_name (item (snd (create_item new_oid db it))))"
  proof (cases "\<exists>d\<in>set (item db). i_name d = name it")
    case True
    then have "name it \<in> set (map i_name (item db))" by (metis imageI set_map)
    with True show ?thesis by (simp add: create_item_snd)
  next
    case False
    then show ?thesis by (simp add: create_item_snd)
  qed
  have "length (filter (\<lambda>i. out_name i = name it)
                   (list_items (snd (create_item new_oid db it)))) = 1"
    using distinct_count_one [OF d m] by (simp add: filter_name_length list_items_names)
  with d reachable_distinct_names [OF assms(1)] show ?thesis by (simp add: p)
qed

theorem item_names_unique_witness:
  "reachable chicken_db \<and> (0::real) < 0.18 \<and>
   distinct (map i_name (item chicken_db)) \<and>
   map out_name (list_items (snd (post_api_items 2 chicken_db
      \<lparr>name = ''Paneer'', unit = ''gm'', protein_per_unit = 0.18\<rparr>))) =
     [''Chicken Breast'', ''Paneer''] \<and>
   length (filter (\<lambda>i. out_name i = ''Paneer'')
     (list_items (snd (post_api_items 2 chicken_db
        \<lparr>name = ''Paneer'', unit = ''gm'', protein_per_unit = 0.18\<rparr>)))) = 1"
proof -
  have "snd (create_item 1 \<lparr>item = [], consumption = []\<rparr>
          \<lparr>name = ''Chicken Breast'', unit = ''gm'', protein_per_unit = 0.31::real\<rparr>) =
        chicken_db"
    by (simp add: create_item_snd)
  with reachable_create_item [OF reachable_empty, of 1
      "\<lparr>name = ''Chicken Breast'', unit = ''gm'', protein_per_unit = 0.31::real\<rparr>"]
  have r: "reachable chicken_db" by simp
  have h: "(0::real) < protein_per_unit
      \<lparr>name = ''Paneer'', unit = ''gm'', protein_per_unit = 0.18::real\<rparr>" by simp
  have l: "map out_name (list_items (snd (post_api_items 2 chicken_db
      \<lparr>name = ''Paneer'', unit = ''gm'', protein_per_unit = 0.18\<rparr>))) =
     [''Chicken Breast'', ''Paneer'']"
    by (simp add: post_api_items_def Item_validate_def create_item_snd list_items_names)
  from r l item_names_unique [OF r h, of 2] show ?thesis by simp
qed

text \<open>
  C6, as the code has it. The \<^verbatim>\<open>Item\<close> model constrains \<open>protein_per_unit\<close> alone: a
  body whose \<open>protein_per_unit\<close> is not strictly greater than zero is rejected with a
  validation error and the storage is left as it was, since the handler never runs. Every
  body with \<open>protein_per_unit > 0\<close> reaches the handler, whatever strings its name and
  unit are, and is created when its name is not stored yet.
\<close>

theorem post_api_items_validation:
  "(\<not> 0 < protein_per_unit body \<longrightarrow>
      post_api_items new_oid db body = (Inl RequestValidationError, db)) \<and>
   (0 < protein_per_unit body \<longrightarrow>
      post_api_items new_oid db body = create_item new_oid db body) \<and>
   (0 < protein_per_unit body \<and> name body \<notin> set (map i_name (item db)) \<longrightarrow>
      (\<exists>doc. fst (post_api_items new_oid db body) = Inr (serialize_item doc)) \<and>
      map i_name (item (snd (post_api_items new_oid db body))) =
        map i_name (item db) @ [name body])"
proof (intro conjI impI)
  assume "\<not> 0 < protein_per_unit body"
  then show "post_api_items new_oid db body = (Inl RequestValidationError, db)"
    by (simp add: post_api_items_def Item_validate_def)
next
  assume "0 < protein_per_unit body"
  then show "post_api_items new_oid db body = create_item new_oid db body"
    by (simp add: post_api_items_def Item_validate_def)
next
  assume a: "0 < protein_per_unit body \<and> name body \<notin> set (map i_name (item db))"
  then have p: "post_api_items new_oid db body = create_item new_oid db body"
    by (simp add: post_api_items_def Item_validate_def)
  from a have "\<forall>d\<in>set (item db). i_name d \<noteq> name body" by (metis imageI set_map)
  from create_item_fresh_name [OF this, of new_oid]
  show "\<exists>doc. fst (post_api_items new_oid db body) = Inr (serialize_item doc)"
    and "map i_name (item (snd (post_api_items new_oid db body))) =
        map i_name (item db) @ [name body]"
    by (auto simp: p)
qed

theorem post_api_items_validation_witness:
  "\<not> (0::real) < 0 \<and>
   post_api_items 2 chicken_db \<lparr>name = ''Water'', unit = ''cup'', protein_per_unit = 0\<rparr> =
     (Inl RequestValidationError, chicken_db) \<and>
   (0::real) < 1 \<and> '''' \<notin> set (map i_name (item chicken_db)) \<and>
   map i_name (item (snd (post_api_items 2 chicken_db
      \<lparr>name = '''', unit = '''', protein_per_unit = 1\<rparr>))) = [''Chicken Breast'', '''']"
  using post_api_items_validation [of "\<lparr>name = ''Water'', unit = ''cup'', protein_per_unit = 0\<rparr>" 2 chicken_db]
    post_api_items_validation [of "\<lparr>name = '''', unit = '''', protein_per_unit = 1\<rparr>" 2 chicken_db]
  by (simp add: create_item_snd)

text \<open>
  The claim that only non-empty names and units are accepted fails: on the empty storage
  the body with the empty name, the empty unit and \<open>protein_per_unit = 1\<close> is accepted and
  stored.
\<close>

theorem post_api_items_empty_name_counterexample:
  "name \<lparr>name = '''', unit = '''', protein_per_unit = 1::real\<rparr> = '''' \<and>
   unit \<lparr>name = '''', unit = '''', protein_per_unit = 1::real\<rparr> = '''' \<and>
   post_api_items 1 \<lparr>item = [], consumption = []\<rparr>
     \<lparr>name = '''', unit = '''', protein_per_unit = 1::real\<rparr> =
     (Inr \<lparr>out_id = str_ObjectId 1, out_name = '''', out_unit = '''',
           out_protein_per_unit = 1\<rparr>,
      \<lparr>item = [\<lparr>i_oid = 1, i_name = '''', i_unit = '''', i_protein_per_unit = 1\<rparr>],
       consumption = []\<rparr>)"
  by (simp add: post_api_items_def Item_validate_def create_item_fresh)

section \<open>Consumption creation: identifiers that do not resolve\<close>

text \<open>
  C3. A consumption request whose \<open>item_id\<close> is not a well-formed identifier fails with
  the 400 of \<^verbatim>\<open>oid\<close>, and one whose \<open>item_id\<close> is well formed but is the identifier of
  no stored item fails with the 404; in both cases the storage returned is the storage
  given, so no record is created.
\<close>

theorem create_consumption_bad_item_id:
  "(ObjectId (item_id entry) = None \<longrightarrow>
      create_consumption other_forms new_oid db entry =
        (Inl (HTTPException 400 ''Invalid ID format''), db)) \<and>
   (\<forall>x. ObjectId (item_id entry) = Some x \<and> x \<notin> set (map i_oid (item db)) \<longrightarrow>
      create_consumption other_forms new_oid db entry =
        (Inl (HTTPException 404 ''Item not found''), db))"
proof (intro conjI impI allI)
  assume "ObjectId (item_id entry) = None"
  then show "create_consumption other_forms new_oid db entry =
        (Inl (HTTPException 400 ''Invalid ID format''), db)"
    by (simp add: create_consumption_def oid_def)
next
  fix x
  assume a: "ObjectId (item_id entry) = Some x \<and> x \<notin> set (map i_oid (item db))"
  then have "\<forall>d\<in>set (item db). i_oid d \<noteq> x" by (metis imageI set_map)
  then have "find (\<lambda>d. i_oid d = x) (item db) = None" by (simp add: find_None_set)
  with a show "create_consumption other_forms new_oid db entry =
        (Inl (HTTPException 404 ''Item not found''), db)"
    by (simp add: create_consumption_def oid_def)
qed

theorem create_consumption_bad_item_id_witness:
  "ObjectId ''chicken'' = None \<and>
   create_consumption basic_form 7 chicken_db
     \<lparr>date = \<lparr>year = 2024, month = 1, day = 15\<rparr>, item_id = ''chicken'', quantity = 200\<rparr> =
     (Inl (HTTPException 400 ''Invalid ID format''), chicken_db) \<and>
   ObjectId ''00000000000000000000000A'' = Some 10 \<and>
   10 \<notin> set (map i_oid (item chicken_db)) \<and>
   create_consumption basic_form 7 chicken_db
     \<lparr>date = \<lparr>year = 2024, month = 1, day = 15\<rparr>,
      item_id = ''00000000000000000000000A'', quantity = 200\<rparr> =
     (Inl (HTTPException 404 ''Item not found''), chicken_db)"
proof -
  have a: "ObjectId ''chicken'' = None" by (simp add: ObjectId_def)
  have b: "ObjectId ''00000000000000000000000A'' = Some 10"
    by (simp add: ObjectId_def hex_val_def)
  have c: "(10 :: ObjectId) \<notin> set (map i_oid (item chicken_db))" by simp
  from a b c
    create_consumption_bad_item_id [of
      "\<lparr>date = \<lparr>year = 2024, month = 1, day = 15\<rparr>, item_id = ''chicken'',
        quantity = 200::real\<rparr>" basic_form 7 chicken_db]
    create_consumption_bad_item_id [of
      "\<lparr>date = \<lparr>year = 2024, month = 1, day = 15\<rparr>,
        item_id = ''00000000000000000000000A'', quantity = 200::real\<rparr>" basic_form 7 chicken_db]
  show ?thesis by simp
qed

section \<open>Consumption listing\<close>

text \<open>
  What the listing's first step rejects is what \<^verbatim>\<open>date.fromisoformat\<close> rejects: the
  400 comes exactly for those strings, and with it nothing else, no entries and no total.
  A string that the library parses, in whichever form, passes and is the filter as it
  stands.
\<close>

lemma list_consumptions_rejects:
  "(fromisoformat other_forms date_str = None \<longrightarrow>
      list_consumptions other_forms round2 db date_str =
        Inl (HTTPException 400 ''Invalid date format. Use YYYY-MM-DD'')) \<and>
   (\<forall>d. fromisoformat other_forms date_str = Some d \<longrightarrow>
      (\<exists>r. list_consumptions other_forms round2 db date_str = Inr r \<and>
           r_date r = date_str))"
proof (intro conjI impI allI)
  assume "fromisoformat other_forms date_str = None"
  then show "list_consumptions other_forms round2 db date_str =
        Inl (HTTPException 400 ''Invalid date format. Use YYYY-MM-DD'')"
    by (simp add: list_consumptions_def)
next
  fix d
  assume "fromisoformat other_forms date_str = Some d"
  then show "\<exists>r. list_consumptions other_forms round2 db date_str = Inr r \<and>
           r_date r = date_str"
    by (simp add: list_consumptions_eq)
qed

lemma list_consumptions_rejects_malformed:
  "list_consumptions basic_form round2 db ''not-a-date'' =
     Inl (HTTPException 400 ''Invalid date format. Use YYYY-MM-DD'') \<and>
   list_consumptions basic_form round2 db ''2024-02-30'' =
     Inl (HTTPException 400 ''Invalid date format. Use YYYY-MM-DD'')"
proof -
  have a: "fromisoformat basic_form ''not-a-date'' = None"
    by (simp add: fromisoformat_def fromisoformat_ymd_def basic_form_def digit_val_def)
  have b: "fromisoformat basic_form ''2024-02-30'' = None"
    by (simp add: fromisoformat_def fromisoformat_ymd_def basic_form_def digit_val_def
          valid_date_def days_in_month_def is_leap_def)
  from a b show ?thesis by (simp add: list_consumptions_def)
qed

text \<open>
  C7. The handler's own message names \<^verbatim>\<open>YYYY-MM-DD\<close> as the format, and every string
  that is not a date in that form should get the 400. The handler leaves the test to
  \<^verbatim>\<open>date.fromisoformat\<close>, and from Python 3.11 on the library parses further forms. So
  \<open>''20240115''\<close>, which is not in the form \<^verbatim>\<open>YYYY-MM-DD\<close>, is not rejected there: the
  handler drops the parsed date and filters by the string as given, which equals no stored
  date, since records are stored under \<^verbatim>\<open>isoformat()\<close>. The listing answers with no
  entries and the total \<open>0\<close> although the storage holds two records of that day. Where
  the library knows \<^verbatim>\<open>YYYY-MM-DD\<close> only, the same request gets the 400.
\<close>

theorem list_consumptions_basic_form_accepted:
  "fromisoformat_ymd ''20240115'' = None \<and>
   fromisoformat basic_form ''20240115'' = Some \<lparr>year = 2024, month = 1, day = 15\<rparr> \<and>
   list_consumptions basic_form round_hundredths two_meals_db ''20240115'' =
     Inr \<lparr>r_date = ''20240115'', r_entries = [], r_total_protein = 0\<rparr> \<and>
   map c_date (consumption two_meals_db) = [''2024-01-15'', ''2024-01-15''] \<and>
   list_consumptions (\<lambda>s. None) round_hundredths two_meals_db ''20240115'' =
     Inl (HTTPException 400 ''Invalid date format. Use YYYY-MM-DD'')"
proof -
  have a: "fromisoformat_ymd ''20240115'' = None"
    by (simp add: fromisoformat_ymd_def)
  have b: "fromisoformat basic_form ''20240115'' =
             Some \<lparr>year = 2024, month = 1, day = 15\<rparr>"
    by (simp add: fromisoformat_def a basic_form_def digit_val_def valid_date_def
          days_in_month_def)
  have c: "list_consumptions basic_form round_hundredths two_meals_db ''20240115'' =
     Inr \<lparr>r_date = ''20240115'', r_entries = [], r_total_protein = 0\<rparr>"
    by (simp add: list_consumptions_eq [OF b])
  have d: "list_consumptions (\<lambda>s. None) round_hundredths two_meals_db ''20240115'' =
     Inl (HTTPException 400 ''Invalid date format. Use YYYY-MM-DD'')"
    by (simp add: list_consumptions_def fromisoformat_def a)
  from a b c d show ?thesis by simp
qed

text \<open>
  C2. For a date string \<open>D\<close> that parses, the listing succeeds and its \<open>total_protein\<close>
  is \<^verbatim>\<open>round(_, 2)\<close> of the sum of \<open>protein_total\<close> over the entries it returns, added
  from \<open>0\<close> in the order of the entries. When no stored record has the date \<open>D\<close> the
  entries are empty and the total is \<^verbatim>\<open>round(0.0, 2)\<close>, which is \<open>0\<close> for a rounding that
  keeps zero.
\<close>

theorem list_consumptions_total:
  assumes "fromisoformat other_forms D = Some d"
  shows "\<exists>r. list_consumptions other_forms round2 db D = Inr r \<and>
           r_total_protein r = round2 (foldl (+) 0 (map co_protein_total (r_entries r))) \<and>
           (D \<notin> set (map c_date (consumption db)) \<longrightarrow>
              r_entries r = [] \<and> r_total_protein r = round2 0) \<and>
           (D \<notin> set (map c_date (consumption db)) \<and> round2 0 = 0 \<longrightarrow>
              r_total_protein r = 0)"
proof -
  have e: "D \<notin> set (map c_date (consumption db)) \<Longrightarrow>
             filter (\<lambda>c. c_date c = D) (consumption db) = []"
    by (auto simp: filter_empty_conv)
  show ?thesis
    by (auto simp: list_consumptions_eq [OF assms] protein_total_consumption_out e
          simp del: set_map)
qed

theorem list_consumptions_total_witness:
  "fromisoformat basic_form ''2024-01-15'' = Some \<lparr>year = 2024, month = 1, day = 15\<rparr> \<and>
   list_consumptions basic_form round_hundredths two_meals_db ''2024-01-15'' =
     Inr \<lparr>r_date = ''2024-01-15'',
          r_entries = [consumption_out \<lparr>year = 2024, month = 1, day = 15\<rparr> lunch,
                       consumption_out \<lparr>year = 2024, month = 1, day = 15\<rparr> dinner],
          r_total_protein = 108.5\<rparr> \<and>
   fromisoformat basic_form ''2024-01-16'' = Some \<lparr>year = 2024, month = 1, day = 16\<rparr> \<and>
   ''2024-01-16'' \<notin> set (map c_date (consumption two_meals_db)) \<and>
   round_hundredths 0 = 0 \<and>
   list_consumptions basic_form round_hundredths two_meals_db ''2024-01-16'' =
     Inr \<lparr>r_date = ''2024-01-16'', r_entries = [], r_total_protein = 0\<rparr>"
proof -
  have a: "fromisoformat basic_form ''2024-01-15'' = Some \<lparr>year = 2024, month = 1, day = 15\<rparr>"
    by (simp add: fromisoformat_def fromisoformat_ymd_def digit_val_def valid_date_def
          days_in_month_def)
  have b: "fromisoformat basic_form ''2024-01-16'' = Some \<lparr>year = 2024, month = 1, day = 16\<rparr>"
    by (simp add: fromisoformat_def fromisoformat_ymd_def digit_val_def valid_date_def
          days_in_month_def)
  have c: "''2024-01-16'' \<notin> set (map c_date (consumption two_meals_db))" by simp
  have d: "round_hundredths 0 = 0" by simp
  from list_consumptions_total [OF a, of round_hundredths two_meals_db]
  obtain r where r: "list_consumptions basic_form round_hundredths two_meals_db ''2024-01-15'' = Inr r"
    and t: "r_total_protein r =
              round_hundredths (foldl (+) 0 (map co_protein_total (r_entries r)))"
    by blast
  have e: "r_entries r = [consumption_out \<lparr>year = 2024, month = 1, day = 15\<rparr> lunch,
                       consumption_out \<lparr>year = 2024, month = 1, day = 15\<rparr> dinner]"
    and f: "r_date r = ''2024-01-15''"
    using r by (auto simp: list_consumptions_eq [OF a])
  have "r_total_protein r = 108.5"
    by (simp add: t e consumption_out_def)
  with e f have g: "r = \<lparr>r_date = ''2024-01-15'',
          r_entries = [consumption_out \<lparr>year = 2024, month = 1, day = 15\<rparr> lunch,
                       consumption_out \<lparr>year = 2024, month = 1, day = 15\<rparr> dinner],
          r_total_protein = 108.5\<rparr>" by simp
  from list_consumptions_total [OF b, of round_hundredths two_meals_db] c d
  obtain r' where r': "list_consumptions basic_form round_hundredths two_meals_db ''2024-01-16'' = Inr r'"
    and e': "r_entries r' = []" and t': "r_total_protein r' = 0"
    by blast
  have "r_date r' = ''2024-01-16''"
    using r' by (auto simp: list_consumptions_eq [OF b])
  with e' t' have g': "r' = \<lparr>r_date = ''2024-01-16'', r_entries = [], r_total_protein = 0\<rparr>"
    by simp
  from a b c d r r' g g' show ?thesis by simp
qed

section \<open>Consumption creation and its listing\<close>

text \<open>
  C1. When the request's \<open>item_id\<close> is the identifier of a stored item \<open>item_doc\<close> (the
  one \<^verbatim>\<open>find_one\<close> returns), the identifier assigned to the new record is not in use
  and the request's date is a \<^verbatim>\<open>date\<close>, creation succeeds: one record \<open>doc\<close> is appended
  to the collection and the response \<open>out\<close> is that record. In both, \<open>protein_per_unit\<close>,
  \<open>item_name\<close> and \<open>unit\<close> are the item's and \<open>protein_total\<close> is the item's
  \<open>protein_per_unit\<close> times the request's \<open>quantity\<close>.
\<close>

theorem create_consumption_protein_total:
  assumes "ObjectId (item_id entry) = Some x"
    and "find (\<lambda>d. i_oid d = x) (item db) = Some item_doc"
    and "new_oid \<notin> set (map c_oid (consumption db))"
    and "valid_date (date entry)"
  shows "\<exists>out doc.
     create_consumption other_forms new_oid db entry =
       (Inr out, db\<lparr>consumption := consumption db @ [doc]\<rparr>) \<and>
     out = consumption_out (date entry) doc \<and>
     c_protein_per_unit doc = i_protein_per_unit item_doc \<and>
     c_protein_total doc = i_protein_per_unit item_doc * quantity entry \<and>
     c_item_name doc = i_name item_doc \<and> c_unit doc = i_unit item_doc \<and>
     co_protein_per_unit out = i_protein_per_unit item_doc \<and>
     co_protein_total out = i_protein_per_unit item_doc * quantity entry \<and>
     co_item_name out = i_name item_doc \<and> co_unit out = i_unit item_doc"
proof -
  let ?doc = "\<lparr>c_oid = new_oid, c_date = isoformat (date entry), c_item_id = item_id entry,
         c_item_name = i_name item_doc, c_unit = i_unit item_doc,
         c_quantity = quantity entry,
         c_protein_per_unit = i_protein_per_unit item_doc,
         c_protein_total = i_protein_per_unit item_doc * quantity entry\<rparr>"
  have "create_consumption other_forms new_oid db entry =
       (Inr (consumption_out (date entry) ?doc),
        db\<lparr>consumption := consumption db @ [?doc]\<rparr>)"
    by (rule create_consumption_ok [OF assms])
  then show ?thesis
    by (intro exI [of _ "consumption_out (date entry) ?doc"] exI [of _ ?doc])
       (simp add: consumption_out_def)
qed

theorem create_consumption_protein_total_witness:
  "ObjectId (item_id lunch_request) = Some 1 \<and>
   find (\<lambda>d. i_oid d = 1) (item chicken_db) = Some chicken_breast \<and>
   7 \<notin> set (map c_oid (consumption chicken_db)) \<and>
   valid_date (date lunch_request) \<and>
   (\<exists>out doc.
      create_consumption basic_form 7 chicken_db lunch_request =
        (Inr out, \<lparr>item = [chicken_breast], consumption = [doc]\<rparr>) \<and>
      c_protein_total doc = 62 \<and> co_protein_total out = 62 \<and>
      co_protein_per_unit out = 0.31 \<and> co_item_name out = ''Chicken Breast'' \<and>
      co_unit out = ''gm'')"
proof -
  have a: "ObjectId (item_id lunch_request) = Some 1"
    by (simp add: ObjectId_def hex_val_def)
  have b: "find (\<lambda>d. i_oid d = 1) (item chicken_db) = Some chicken_breast" by simp
  have c: "7 \<notin> set (map c_oid (consumption chicken_db))" by simp
  have d: "valid_date (date lunch_request)"
    by (simp add: valid_date_def days_in_month_def)
  from a b c d create_consumption_protein_total [where other_forms = basic_form, OF a b c d]
  show ?thesis by simp blast
qed

text \<open>
  C8. Under the same conditions the record is stored with the ISO string of the request's
  date, the response carries the request's date, and the listing for that ISO string on
  the resulting storage contains the response. In any storage, the listing for a string
  \<open>D\<close> that parses returns the stored records whose date field equals \<open>D\<close>, each as
  its \<^verbatim>\<open>ConsumptionOut\<close>, in stored order.
\<close>

theorem consumption_date_round_trip:
  assumes "ObjectId (item_id entry) = Some x"
    and "find (\<lambda>d. i_oid d = x) (item db) = Some item_doc"
    and "new_oid \<notin> set (map c_oid (consumption db))"
    and "valid_date (date entry)"
  shows "(\<exists>out doc.
            create_consumption other_forms new_oid db entry =
              (Inr out, db\<lparr>consumption := consumption db @ [doc]\<rparr>) \<and>
            c_date doc = isoformat (date entry) \<and> co_date out = date entry \<and>
            (\<exists>r. list_consumptions other_forms round2 (db\<lparr>consumption := consumption db @ [doc]\<rparr>)
                   (isoformat (date entry)) = Inr r \<and>
                 out \<in> set (r_entries r))) \<and>
         (\<forall>D d db'. fromisoformat other_forms D = Some d \<longrightarrow>
            (\<exists>r. list_consumptions other_forms round2 db' D = Inr r \<and> r_date r = D \<and>
                 r_entries r =
                   map (consumption_out d) (filter (\<lambda>c. c_date c = D) (consumption db'))))"
proof (intro conjI allI impI)
  let ?doc = "\<lparr>c_oid = new_oid, c_date = isoformat (date entry), c_item_id = item_id entry,
         c_item_name = i_name item_doc, c_unit = i_unit item_doc,
         c_quantity = quantity entry,
         c_protein_per_unit = i_protein_per_unit item_doc,
         c_protein_total = i_protein_per_unit item_doc * quantity entry\<rparr>"
  let ?out = "consumption_out (date entry) ?doc"
  have c: "create_consumption other_forms new_oid db entry =
       (Inr ?out, db\<lparr>consumption := consumption db @ [?doc]\<rparr>)"
    by (rule create_consumption_ok [OF assms])
  have p: "fromisoformat other_forms (isoformat (date entry)) = Some (date entry)"
    by (rule fromisoformat_isoformat [OF assms(4)])
  have l: "\<exists>r. list_consumptions other_forms round2 (db\<lparr>consumption := consumption db @ [?doc]\<rparr>)
                   (isoformat (date entry)) = Inr r \<and> ?out \<in> set (r_entries r)"
    by (simp add: list_consumptions_eq [OF p])
  have "co_date ?out = date entry" by (simp add: consumption_out_def)
  with c l show "\<exists>out doc.
            create_consumption other_forms new_oid db entry =
              (Inr out, db\<lparr>consumption := consumption db @ [doc]\<rparr>) \<and>
            c_date doc = isoformat (date entry) \<and> co_date out = date entry \<and>
            (\<exists>r. list_consumptions other_forms round2 (db\<lparr>consumption := consumption db @ [doc]\<rparr>)
                   (isoformat (date entry)) = Inr r \<and>
                 out \<in> set (r_entries r))"
    by (intro exI [of _ ?out] exI [of _ ?doc]) simp
next
  fix D d and db' :: "'a database"
  assume "fromisoformat other_forms D = Some d"
  then show "\<exists>r. list_consumptions other_forms round2 db' D = Inr r \<and> r_date r = D \<and>
                 r_entries r =
                   map (consumption_out d) (filter (\<lambda>c. c_date c = D) (consumption db'))"
    by (simp add: list_consumptions_eq)
qed

theorem consumption_date_round_trip_witness:
  "ObjectId (item_id lunch_request) = Some 1 \<and>
   find (\<lambda>d. i_oid d = 1) (item chicken_db) = Some chicken_breast \<and>
   7 \<notin> set (map c_oid (consumption chicken_db)) \<and>
   valid_date (date lunch_request) \<and>
   isoformat (date lunch_request) = ''2024-01-15'' \<and>
   (\<exists>out doc.
      create_consumption basic_form 7 chicken_db lunch_request =
        (Inr out, \<lparr>item = [chicken_breast], consumption = [doc]\<rparr>) \<and>
      c_date doc = ''2024-01-15'' \<and>
      co_date out = \<lparr>year = 2024, month = 1, day = 15\<rparr> \<and>
      (\<exists>r. list_consumptions basic_form round_hundredths
              \<lparr>item = [chicken_breast], consumption = [doc]\<rparr> ''2024-01-15'' = Inr r \<and>
           out \<in> set (r_entries r)))"
proof -
  have a: "ObjectId (item_id lunch_request) = Some 1"
    by (simp add: ObjectId_def hex_val_def)
  have b: "find (\<lambda>d. i_oid d = 1) (item chicken_db) = Some chicken_breast" by simp
  have c: "7 \<notin> set (map c_oid (consumption chicken_db))" by simp
  have d: "valid_date (date lunch_request)"
    by (simp add: valid_date_def days_in_month_def)
  have i: "isoformat (date lunch_request) = ''2024-01-15''" by code_simp
  from consumption_date_round_trip
    [OF a b c d, of basic_form round_hundredths]
  have "\<exists>out doc.
      create_consumption basic_form 7 chicken_db lunch_request =
        (Inr out, chicken_db\<lparr>consumption := consumption chicken_db @ [doc]\<rparr>) \<and>
      c_date doc = isoformat (date lunch_request) \<and>
      co_date out = date lunch_request \<and>
      (\<exists>r. list_consumptions basic_form round_hundredths
              (chicken_db\<lparr>consumption := consumption chicken_db @ [doc]\<rparr>)
              (isoformat (date lunch_request)) = Inr r \<and>
           out \<in> set (r_entries r))"
    by (rule conjunct1)
  then have "\<exists>out doc.
      create_consumption basic_form 7 chicken_db lunch_request =
        (Inr out, \<lparr>item = [chicken_breast], consumption = [doc]\<rparr>) \<and>
      c_date doc = ''2024-01-15'' \<and>
      co_date out = \<lparr>year = 2024, month = 1, day = 15\<rparr> \<and>
      (\<exists>r. list_consumptions basic_form round_hundredths
              \<lparr>item = [chicken_breast], consumption = [doc]\<rparr> ''2024-01-15'' = Inr r \<and>
           out \<in> set (r_entries r))"
    unfolding i by simp
  with a b c d i show ?thesis by simp
qed

end
